theory Spec2Isabelle
  imports Main "HOL-Library.Word"
begin

section \<open>C strings and fixed-capacity buffers\<close>

text \<open>
  A \<open>uint8_t\<close> array of the context is a list of bytes whose length is the array's
  capacity, so \<open>sizeof\<close> of the array is the length of the list. The string it holds
  is the bytes before the first NUL.
\<close>

definition NUL :: char where
  "NUL = CHR 0x00"

definition c_str :: "string \<Rightarrow> string" where
  "c_str buf = takeWhile (\<lambda>c. c \<noteq> NUL) buf"

definition strlen :: "string \<Rightarrow> nat" where
  "strlen s = length (c_str s)"

text \<open>
  \<open>strncpy(dst, src, n)\<close> of the C library: the bytes of \<open>src\<close> up to its
  terminator, at most \<open>n\<close> of them, then NUL bytes until \<open>n\<close> bytes are written.
  \<open>strncpy_bytes\<close> is the block of \<open>n\<close> bytes written at \<open>dst[0]\<close>;
  \<open>strncpy\<close> is the destination array afterwards.
\<close>

definition strncpy_bytes :: "string \<Rightarrow> nat \<Rightarrow> string" where
  "strncpy_bytes src n = take n (c_str src) @ replicate (n - length (take n (c_str src))) NUL"

definition strncpy :: "string \<Rightarrow> string \<Rightarrow> nat \<Rightarrow> string" where
  "strncpy dst src n = strncpy_bytes src n @ drop n dst"

section \<open>Build configuration\<close>

text \<open>
  The Kconfig symbols and host constants the library is compiled against. They are not
  defined in the library's sources, so they are parameters of the model.
\<close>

record config =
  CONFIG_NET_SOCKETS_SOCKOPT_TLS :: bool
  CONFIG_REQUESTS_SSL_VERIFYHOST :: bool
  CONFIG_REQUESTS_SSL_VERIFYPEER :: bool
  CONFIG_REQUESTS_HTTPS_PORT :: int
  CONFIG_REQUESTS_HTTP_PORT :: int
  CONFIG_REQUESTS_URL_LEN :: nat
  NI_MAXHOST :: nat
  NET_IPV4_MTU :: nat

definition EAGAIN :: int where "EAGAIN = 11"
definition EINVAL :: int where "EINVAL = 22"
definition ECONNABORTED :: int where "ECONNABORTED = 113"

section \<open>Data model (requests.h)\<close>

datatype requests_options =
    REQUESTS_HTTPHEADERS
  | REQUESTS_POSTFIELDS
  | REQUESTS_POSTFIELDS_SIZE
  | REQUESTS_PROTOCOL
  | REQUESTS_SSL_VERIFYHOST
  | REQUESTS_SSL_VERIFYPEER
  | REQUESTS_USERPWD
  | REQUESTS_WRITEFUNCTION

text \<open>
  The first methods of the host's \<open>enum http_method\<close>, in its order: a zeroed field
  reads \<open>HTTP_DELETE\<close>.
\<close>

datatype http_method =
    HTTP_DELETE | HTTP_GET | HTTP_HEAD | HTTP_POST | HTTP_PUT
  | HTTP_CONNECT | HTTP_OPTIONS | HTTP_TRACE | HTTP_PATCH

datatype sa_family = AF_UNSPEC | AF_INET | AF_INET6 | AF_PACKET

record sockaddr =
  sa_family :: sa_family
  sin_port :: "16 word"
  sin_addr :: "32 word"

record requests_url_fields =
  schema :: string
  hostname :: string
  uri :: string
  port :: "16 word"
  is_ssl :: bool

text \<open>
  A function pointer is the address of the function (0 is the null pointer); the header
  array is \<open>None\<close> for a null pointer. \<open>padding\<close> is the two bytes the compiler
  leaves between the one-byte flag \<open>is_ssl_verifypeer\<close> and the \<open>int\<close> that follows
  it; they are part of the structure's memory, zeroed with it and read by
  \<open>requests_connect_setup\<close>.
\<close>

type_synonym http_response_cb_t = nat

record requests_ctx =
  sockfd :: int
  sa :: sockaddr
  url_fields :: requests_url_fields
  "method" :: http_method
  cb :: http_response_cb_t
  recv_buf :: string
  payload :: string
  payload_size :: "16 word"
  protocol :: string
  headers :: "string list option"
  is_ssl_verifyhost :: bool
  is_ssl_verifypeer :: bool
  padding :: "16 word"
  status_code :: int
  err :: int

text \<open>\<open>memset(ctx, 0, sizeof(struct requests_ctx))\<close>: every array keeps its capacity.\<close>

definition memset_ctx :: "config \<Rightarrow> requests_ctx" where
  "memset_ctx cfg =
     \<lparr> sockfd = 0,
       sa = \<lparr> sa_family = AF_UNSPEC, sin_port = 0, sin_addr = 0 \<rparr>,
       url_fields = \<lparr> schema = replicate 8 NUL,
                      hostname = replicate (NI_MAXHOST cfg) NUL,
                      uri = replicate (CONFIG_REQUESTS_URL_LEN cfg) NUL,
                      port = 0,
                      is_ssl = False \<rparr>,
       method = HTTP_DELETE,
       cb = 0,
       recv_buf = replicate (NET_IPV4_MTU cfg) NUL,
       payload = replicate (NET_IPV4_MTU cfg) NUL,
       payload_size = 0,
       protocol = replicate 16 NUL,
       headers = None,
       is_ssl_verifyhost = False,
       is_ssl_verifypeer = False,
       padding = 0,
       status_code = 0,
       err = 0 \<rparr>"

section \<open>Option store (requests_setopt)\<close>

text \<open>
  The \<open>void *parameter\<close> of \<open>requests_setopt\<close> is read through the cast that the
  selected option applies to it. The record holds what each cast reads from the pointer.
\<close>

record parameter =
  as_headers :: "string list option"
  as_string :: string
  as_bool :: bool
  as_uint16 :: "16 word"
  as_callback :: http_response_cb_t

definition requests_setopt :: "requests_ctx \<Rightarrow> requests_options \<Rightarrow> parameter \<Rightarrow> requests_ctx" where
  "requests_setopt ctx option param =
     (case option of
        REQUESTS_HTTPHEADERS \<Rightarrow> ctx\<lparr> headers := as_headers param \<rparr>
      | REQUESTS_POSTFIELDS \<Rightarrow>
          ctx\<lparr> payload := strncpy (payload ctx) (as_string param) (length (payload ctx) - 1) \<rparr>
      | REQUESTS_PROTOCOL \<Rightarrow>
          ctx\<lparr> protocol := strncpy (protocol ctx) (as_string param) (length (protocol ctx) - 1) \<rparr>
      | REQUESTS_SSL_VERIFYHOST \<Rightarrow> ctx\<lparr> is_ssl_verifyhost := as_bool param \<rparr>
      | REQUESTS_SSL_VERIFYPEER \<Rightarrow> ctx\<lparr> is_ssl_verifypeer := as_bool param \<rparr>
      | REQUESTS_WRITEFUNCTION \<Rightarrow> ctx\<lparr> cb := as_callback param \<rparr>
      | _ \<Rightarrow> ctx)"

section \<open>URL parser (requests_url_parser)\<close>

text \<open>
  \<open>http_parser_parse_url\<close> belongs to the host's HTTP parser, so it is a parameter of
  the model: it maps the URL and its length to a return code and, per field, the offset and
  length of the field in the URL. Of \<open>struct http_parser_url\<close> the library reads
  \<open>field_data\<close> only.
\<close>

datatype http_parser_url_fields =
    UF_SCHEMA | UF_HOST | UF_PORT | UF_PATH | UF_QUERY | UF_FRAGMENT | UF_USERINFO

record url_field_data =
  off :: nat
  len :: nat

record http_parser_url =
  field_set :: "16 word"
  field_data :: "http_parser_url_fields \<Rightarrow> url_field_data"

type_synonym url_parser = "string \<Rightarrow> nat \<Rightarrow> int \<times> http_parser_url"

text \<open>
  The URL in memory is the bytes of the list, its terminator, and then whatever the memory
  holds after the terminator (\<open>beyond\<close>). \<open>memcpy_from url beyond ofs n\<close> is the \<open>n\<close>
  bytes that \<open>memcpy(field, url + ofs, n)\<close> reads.
\<close>

definition mem_byte :: "string \<Rightarrow> (nat \<Rightarrow> char) \<Rightarrow> nat \<Rightarrow> char" where
  "mem_byte url beyond i =
     (if i < length url then url ! i
      else if i = length url then NUL
      else beyond (i - Suc (length url)))"

definition memcpy_from :: "string \<Rightarrow> (nat \<Rightarrow> char) \<Rightarrow> nat \<Rightarrow> nat \<Rightarrow> string" where
  "memcpy_from url beyond ofs n = map (mem_byte url beyond) [ofs ..< ofs + n]"

text \<open>
  A function that writes into an array either returns, with its return code and the array as
  it is afterwards, or it writes \<open>n\<close> bytes into an array of \<open>c < n\<close> bytes, which C
  leaves undefined: \<open>Overrun n c\<close>.
\<close>

datatype 'a outcome = Returns int 'a | Overrun nat nat

definition store :: "string \<Rightarrow> string \<Rightarrow> string outcome" where
  "store field bytes =
     (if length bytes \<le> length field then Returns 0 (bytes @ drop (length bytes) field)
      else Overrun (length bytes) (length field))"

definition requests_url_fields_get ::
  "string \<Rightarrow> (nat \<Rightarrow> char) \<Rightarrow> http_parser_url \<Rightarrow> http_parser_url_fields \<Rightarrow> string \<Rightarrow> nat
     \<Rightarrow> string outcome" where
  "requests_url_fields_get url beyond purl url_field field field_len =
     (let ofs = off (field_data purl url_field);
          n = len (field_data purl url_field)
      in if n = 0 \<or> n \<ge> field_len then Returns (- EINVAL) field
         else if url_field = UF_PATH
           then store field (memcpy_from url beyond ofs (strlen url) @ [NUL])
           else store field (memcpy_from url beyond ofs n @ [NUL]))"

text \<open>\<open>atoi\<close> of the C library: white space, an optional sign, then decimal digits.\<close>

definition isspace :: "char \<Rightarrow> bool" where
  "isspace c = (c \<in> set [CHR '' '', CHR 0x09, CHR 0x0A, CHR 0x0B, CHR 0x0C, CHR 0x0D])"

definition isdigit :: "char \<Rightarrow> bool" where
  "isdigit c = (48 \<le> (of_char c :: nat) \<and> (of_char c :: nat) \<le> 57)"

fun atoi_digits :: "int \<Rightarrow> string \<Rightarrow> int" where
  "atoi_digits acc [] = acc"
| "atoi_digits acc (c # cs) =
     (if isdigit c then atoi_digits (acc * 10 + (of_char c - 48)) cs else acc)"

definition atoi :: "string \<Rightarrow> int" where
  "atoi s =
     (case dropWhile isspace (c_str s) of
        [] \<Rightarrow> 0
      | c # cs \<Rightarrow>
          if c = CHR ''-'' then - atoi_digits 0 cs
          else if c = CHR ''+'' then atoi_digits 0 cs
          else atoi_digits 0 (c # cs))"

text \<open>Sequencing: the rest of a function runs when the call before it has returned.\<close>

definition on_return :: "'a outcome \<Rightarrow> (int \<Rightarrow> 'a \<Rightarrow> 'b outcome) \<Rightarrow> 'b outcome" where
  "on_return m f = (case m of Overrun n c \<Rightarrow> Overrun n c | Returns ret x \<Rightarrow> f ret x)"

definition requests_url_parser ::
  "config \<Rightarrow> url_parser \<Rightarrow> (nat \<Rightarrow> char) \<Rightarrow> requests_ctx \<Rightarrow> string \<Rightarrow> requests_ctx outcome" where
  "requests_url_parser cfg http_parser_parse_url beyond ctx url =
     (case http_parser_parse_url url (strlen url) of (ret, purl) \<Rightarrow>
      if ret < 0 then Returns ret ctx
      else
      on_return (requests_url_fields_get url beyond purl UF_SCHEMA (schema (url_fields ctx))
                   (length (schema (url_fields ctx))))
        (\<lambda>ret schema'.
      let ctx = ctx\<lparr> url_fields := (url_fields ctx)\<lparr> schema := schema' \<rparr> \<rparr>
      in if ret < 0 then Returns ret ctx
      else
      on_return (requests_url_fields_get url beyond purl UF_HOST (hostname (url_fields ctx))
                   (length (hostname (url_fields ctx))))
        (\<lambda>ret hostname'.
      let ctx = ctx\<lparr> url_fields := (url_fields ctx)\<lparr> hostname := hostname' \<rparr> \<rparr>
      in if ret < 0 then Returns ret ctx
      else
      on_return (requests_url_fields_get url beyond purl UF_PORT (replicate 6 NUL) 6)
        (\<lambda>ret port_ascii.
      let port' =
            (if ret < 0
             then (if CONFIG_NET_SOCKETS_SOCKOPT_TLS cfg
                   then word_of_int (CONFIG_REQUESTS_HTTPS_PORT cfg)
                   else word_of_int (CONFIG_REQUESTS_HTTP_PORT cfg))
             else word_of_int (atoi port_ascii));
          ctx = ctx\<lparr> url_fields := (url_fields ctx)\<lparr> port := port' \<rparr> \<rparr>
      in
      on_return (requests_url_fields_get url beyond purl UF_PATH (uri (url_fields ctx))
                   (length (uri (url_fields ctx))))
        (\<lambda>ret uri'.
      let ctx = ctx\<lparr> url_fields := (url_fields ctx)\<lparr> uri := uri' \<rparr> \<rparr>
      in if ret < 0
         then on_return (store (uri (url_fields ctx)) (''/'' @ [NUL]))
                (\<lambda>_ uri''. Returns 0 (ctx\<lparr> url_fields := (url_fields ctx)\<lparr> uri := uri'' \<rparr> \<rparr>))
         else Returns 0 ctx)))))"

section \<open>Readiness gate (requests_dns_cb, requests_dns_lookup)\<close>

datatype dns_resolve_status =
    DNS_EAI_BADFLAGS | DNS_EAI_NONAME | DNS_EAI_AGAIN | DNS_EAI_FAIL | DNS_EAI_NODATA
  | DNS_EAI_MEMORY | DNS_EAI_SYSTEM | DNS_EAI_INPROGRESS | DNS_EAI_CANCELED | DNS_EAI_ALLDONE

record dns_addrinfo =
  ai_addr :: sockaddr
  ai_family :: sa_family

text \<open>
  \<open>dns_wait\<close> is a static semaphore with initial count 0 and limit 1; it is shared by every
  lookup, so its count is state that outlives a call. \<open>k_sem_give\<close> is the kernel's: the
  count goes up by one unless it is at the limit.
\<close>

definition k_sem_give :: "nat \<Rightarrow> nat" where
  "k_sem_give count = (if count < 1 then count + 1 else count)"

type_synonym dns_event = "dns_resolve_status \<times> dns_addrinfo option"

fun requests_dns_cb :: "dns_event \<Rightarrow> nat \<times> requests_ctx \<Rightarrow> nat \<times> requests_ctx" where
  "requests_dns_cb (status, info) (dns_wait, ctx) =
     (let dns_wait = (case status of
                        DNS_EAI_CANCELED \<Rightarrow> dns_wait
                      | DNS_EAI_FAIL \<Rightarrow> dns_wait
                      | DNS_EAI_NODATA \<Rightarrow> dns_wait
                      | DNS_EAI_ALLDONE \<Rightarrow> k_sem_give dns_wait
                      | _ \<Rightarrow> dns_wait)
      in (case info of
            None \<Rightarrow> (dns_wait, ctx)
          | Some i \<Rightarrow>
              if ai_family i = AF_INET
              then (dns_wait, ctx\<lparr> sa := ai_addr i, err := 0 \<rparr>)
              else (dns_wait, ctx\<lparr> err := - EINVAL \<rparr>)))"

text \<open>
  \<open>k_sem_take(&dns_wait, timeout)\<close>: the caller takes the semaphore at once when its count
  is positive; otherwise it waits while the resolver delivers its callbacks, and when the
  resolver has no more to deliver before the timeout, the call returns \<open>-EAGAIN\<close>.
  The result is the return code, the semaphore's count and the context.
\<close>

fun take_dns_wait :: "nat \<Rightarrow> requests_ctx \<Rightarrow> dns_event list \<Rightarrow> int \<times> nat \<times> requests_ctx" where
  "take_dns_wait dns_wait ctx [] =
     (if 0 < dns_wait then (0, dns_wait - 1, ctx) else (- EAGAIN, dns_wait, ctx))"
| "take_dns_wait dns_wait ctx (ev # evs) =
     (if 0 < dns_wait then (0, dns_wait - 1, ctx)
      else case requests_dns_cb ev (dns_wait, ctx) of
             (dns_wait', ctx') \<Rightarrow> take_dns_wait dns_wait' ctx' evs)"

text \<open>
  What the host does during a lookup: the result of waiting for the link
  (\<open>k_sem_take(&ipv4_wait, ...)\<close>), the return code of \<open>dns_get_addr_info\<close> for a host
  name, and the callbacks the resolver delivers within the timeout.
\<close>

record resolver =
  take_ipv4_wait :: int
  dns_get_addr_info :: "string \<Rightarrow> int"
  dns_events :: "dns_event list"

definition requests_dns_lookup ::
  "resolver \<Rightarrow> nat \<Rightarrow> requests_ctx \<Rightarrow> int \<times> nat \<times> requests_ctx" where
  "requests_dns_lookup rs dns_wait ctx =
     (if strlen (hostname (url_fields ctx)) = 0 then (- EINVAL, dns_wait, ctx)
      else
        let ret = take_ipv4_wait rs
        in if ret < 0 then (ret, dns_wait, ctx)
        else
          let ret = dns_get_addr_info rs (c_str (hostname (url_fields ctx)))
          in if ret < 0 then (ret, dns_wait, ctx)
          else
            (case take_dns_wait dns_wait ctx (dns_events rs) of
               (ret, dns_wait', ctx') \<Rightarrow>
                 if ret < 0 then (ret, dns_wait', ctx')
                 else (err ctx', dns_wait', ctx')))"

section \<open>Initialisation (requests_init)\<close>

definition requests_init ::
  "config \<Rightarrow> url_parser \<Rightarrow> (nat \<Rightarrow> char) \<Rightarrow> resolver \<Rightarrow> nat \<Rightarrow> string
     \<Rightarrow> (nat \<times> requests_ctx) outcome" where
  "requests_init cfg http_parser_parse_url beyond rs dns_wait url =
     (let ctx = memset_ctx cfg;
          ctx = (if CONFIG_REQUESTS_SSL_VERIFYHOST cfg
                 then ctx\<lparr> is_ssl_verifyhost := True \<rparr> else ctx);
          ctx = (if CONFIG_REQUESTS_SSL_VERIFYPEER cfg
                 then ctx\<lparr> is_ssl_verifypeer := True \<rparr> else ctx)
      in on_return (requests_url_parser cfg http_parser_parse_url beyond ctx url)
           (\<lambda>ret ctx.
              if ret < 0 then Returns ret (dns_wait, ctx)
              else
                (case requests_dns_lookup rs dns_wait ctx of
                   (ret, dns_wait', ctx') \<Rightarrow>
                     if ret < 0 then Returns ret (dns_wait', ctx')
                     else Returns 0 (dns_wait', ctx'))))"

section \<open>Connection establisher (requests_connect)\<close>

datatype ipproto = IPPROTO_TCP | IPPROTO_TLS_1_2

definition CA_CERTIFICATE_TAG :: nat where
  "CA_CERTIFICATE_TAG = 1"

text \<open>
  A TLS socket option with the value and the size passed to \<open>setsockopt\<close>: the host name
  array and its size, the list of security tags, or the integer read at the address of the
  verify-peer flag.
\<close>

datatype tls_option =
    TLS_HOSTNAME string nat
  | TLS_SEC_TAG_LIST "nat list"
  | TLS_PEER_VERIFY int

record http_request =
  req_method :: http_method
  req_url :: string
  req_host :: string
  req_header_fields :: "string list option"
  req_protocol :: string
  req_response :: http_response_cb_t
  req_recv_buf :: string
  req_recv_buf_len :: nat
  req_payload :: "string option"
  req_payload_len :: nat

text \<open>The calls into the socket layer and the HTTP client, in the order they are made.\<close>

datatype call =
    Socket sa_family ipproto
  | Setsockopt int tls_option
  | Connect int sockaddr
  | Http_client_req int http_request
  | Close int

text \<open>
  The host's answers: the descriptor \<open>socket\<close> returns (negative on failure, with
  \<open>errno\<close> set), the return codes of \<open>setsockopt\<close> and \<open>connect\<close>, and the
  HTTP client's return code together with the context as the response handler, which gets the
  context as its user data, leaves it.
\<close>

record host =
  socket :: "ipproto \<Rightarrow> int"
  errno :: int
  setsockopt :: "int \<Rightarrow> tls_option \<Rightarrow> int"
  connect :: "int \<Rightarrow> sockaddr \<Rightarrow> int"
  http_client_req :: "int \<Rightarrow> http_request \<Rightarrow> requests_ctx \<Rightarrow> int \<times> requests_ctx"

text \<open>
  \<open>setsockopt(..., TLS_PEER_VERIFY, (int *)&ctx->is_ssl_verifypeer, sizeof(int))\<close> passes
  the four bytes that start at the flag, read as an \<open>int\<close>: on a little-endian target
  the flag is the lowest byte, the two padding bytes follow, and the highest byte is the
  lowest byte of \<open>status_code\<close>.
\<close>

definition peer_verify_int :: "requests_ctx \<Rightarrow> int" where
  "peer_verify_int ctx =
     sint (word_of_int ((if is_ssl_verifypeer ctx then 1 else 0)
                        + 2 ^ 8 * uint (padding ctx)
                        + 2 ^ 24 * (status_code ctx mod 256)) :: 32 word)"

definition requests_connect_setup ::
  "config \<Rightarrow> host \<Rightarrow> requests_ctx \<Rightarrow> int \<times> requests_ctx \<times> call list" where
  "requests_connect_setup cfg h ctx =
     (let proto = (if CONFIG_NET_SOCKETS_SOCKOPT_TLS cfg then IPPROTO_TLS_1_2 else IPPROTO_TCP);
          ctx = ctx\<lparr> sockfd := socket h proto \<rparr>;
          tr = [Socket AF_INET proto]
      in if sockfd ctx < 0 then (- errno h, ctx, tr)
      else if CONFIG_NET_SOCKETS_SOCKOPT_TLS cfg then
        (let sec_tag_list = [CA_CERTIFICATE_TAG];
             opt_host = TLS_HOSTNAME (hostname (url_fields ctx))
                          (length (hostname (url_fields ctx)));
             ret_host = (if is_ssl_verifyhost ctx then setsockopt h (sockfd ctx) opt_host else 0);
             tr = (if is_ssl_verifyhost ctx then tr @ [Setsockopt (sockfd ctx) opt_host] else tr)
         in if is_ssl_verifyhost ctx \<and> ret_host < 0 then (ret_host, ctx, tr)
         else if is_ssl_verifypeer ctx then
           (let opt = TLS_SEC_TAG_LIST sec_tag_list;
                ret = setsockopt h (sockfd ctx) opt;
                tr = tr @ [Setsockopt (sockfd ctx) opt]
            in if ret < 0 then (ret, ctx, tr) else (0, ctx, tr))
         else
           (let opt = TLS_PEER_VERIFY (peer_verify_int ctx);
                ret = setsockopt h (sockfd ctx) opt;
                tr = tr @ [Setsockopt (sockfd ctx) opt]
            in if ret < 0 then (ret, ctx, tr) else (0, ctx, tr)))
      else (0, ctx, tr))"

definition requests_connect ::
  "config \<Rightarrow> host \<Rightarrow> requests_ctx \<Rightarrow> int \<times> requests_ctx \<times> call list" where
  "requests_connect cfg h ctx =
     (case requests_connect_setup cfg h ctx of (ret, ctx, tr) \<Rightarrow>
      if ret < 0 then (- ECONNABORTED, ctx, tr)
      else
        let sa_in = (sa ctx)\<lparr> sin_port := port (url_fields ctx), sa_family := AF_INET \<rparr>;
            ctx = ctx\<lparr> sa := sa_in \<rparr>;
            ret = connect h (sockfd ctx) sa_in;
            tr = tr @ [Connect (sockfd ctx) sa_in]
        in if ret < 0
           then (- ECONNABORTED, ctx\<lparr> sockfd := - 1 \<rparr>, tr @ [Close (sockfd ctx)])
           else (ret, ctx, tr))"

section \<open>Request executor (requests)\<close>

text \<open>\<open>memset(&req, 0, sizeof(struct http_request))\<close>.\<close>

definition memset_req :: http_request where
  "memset_req =
     \<lparr> req_method = HTTP_DELETE, req_url = [], req_host = [], req_header_fields = None,
       req_protocol = [], req_response = 0, req_recv_buf = [], req_recv_buf_len = 0,
       req_payload = None, req_payload_len = 0 \<rparr>"

text \<open>The request descriptor that \<open>requests\<close> fills in between connecting and sending.\<close>

definition build_req :: "requests_ctx \<Rightarrow> http_method \<Rightarrow> http_request" where
  "build_req ctx m =
     (let req = memset_req\<lparr>
            req_method := m,
            req_url := uri (url_fields ctx),
            req_host := hostname (url_fields ctx),
            req_header_fields := headers ctx,
            req_protocol := protocol ctx,
            req_response := cb ctx,
            req_recv_buf := recv_buf ctx,
            req_recv_buf_len := length (recv_buf ctx) \<rparr>
      in if m = HTTP_POST \<or> m = HTTP_PUT
         then req\<lparr> req_payload := Some (payload ctx), req_payload_len := length (payload ctx) \<rparr>
         else req)"

text \<open>The context pointer is \<open>None\<close> when it is the null pointer.\<close>

definition requests ::
  "config \<Rightarrow> host \<Rightarrow> requests_ctx option \<Rightarrow> http_method
     \<Rightarrow> int \<times> requests_ctx option \<times> call list" where
  "requests cfg h ctxp m =
     (case ctxp of
        None \<Rightarrow> (- EINVAL, None, [])
      | Some ctx \<Rightarrow>
          (case requests_connect cfg h ctx of (ret, ctx, tr) \<Rightarrow>
           if ret < 0 then (ret, Some ctx, tr)
           else
             let req = build_req ctx m
             in case http_client_req h (sockfd ctx) req ctx of (ret, ctx') \<Rightarrow>
                  (ret, Some ctx', tr @ [Http_client_req (sockfd ctx) req, Close (sockfd ctx')])))"

section \<open>Notions used to state the properties\<close>

text \<open>What a function that returned has returned: its return code and its result.\<close>

fun returned :: "'a outcome \<Rightarrow> (int \<times> 'a) option" where
  "returned (Returns ret x) = Some (ret, x)"
| "returned (Overrun n c) = None"

text \<open>The number of times a descriptor is closed in a sequence of calls.\<close>

definition closes :: "int \<Rightarrow> call list \<Rightarrow> nat" where
  "closes fd tr = count_list tr (Close fd)"

text \<open>The port the parser falls back to when it takes no port from the URL.\<close>

definition default_port :: "config \<Rightarrow> 16 word" where
  "default_port cfg =
     (if CONFIG_NET_SOCKETS_SOCKOPT_TLS cfg
      then word_of_int (CONFIG_REQUESTS_HTTPS_PORT cfg)
      else word_of_int (CONFIG_REQUESTS_HTTP_PORT cfg))"

text \<open>A port number as it is written in a URL: in decimal, without leading zeros.\<close>

definition digit_char :: "nat \<Rightarrow> char" where
  "digit_char d = ''0123456789'' ! d"

fun dec :: "nat \<Rightarrow> string" where
  "dec n = (if n < 10 then [digit_char n] else dec (n div 10) @ [digit_char (n mod 10)])"

declare dec.simps [simp del]

text \<open>
  The callbacks that reach a waiting lookup: those up to and including the first completion
  signal. \<open>answers\<close> are the address records they carry, in order of delivery.
\<close>

fun delivered :: "dns_event list \<Rightarrow> dns_event list" where
  "delivered [] = []"
| "delivered (ev # evs) = (if fst ev = DNS_EAI_ALLDONE then [ev] else ev # delivered evs)"

definition answers :: "dns_event list \<Rightarrow> dns_addrinfo list" where
  "answers evs = List.map_filter snd evs"

definition is_ipv4 :: "dns_addrinfo \<Rightarrow> bool" where
  "is_ipv4 i = (ai_family i = AF_INET)"

definition run_cbs :: "dns_event list \<Rightarrow> nat \<times> requests_ctx \<Rightarrow> nat \<times> requests_ctx" where
  "run_cbs evs st = foldl (\<lambda>st ev. requests_dns_cb ev st) st evs"

section \<open>Concrete builds, hosts and inputs\<close>

text \<open>
  A build without TLS and one with TLS, with the usual ports and 64-byte URL and host name
  arrays.
\<close>

definition cfg_plain :: config where
  "cfg_plain =
     \<lparr> CONFIG_NET_SOCKETS_SOCKOPT_TLS = False,
       CONFIG_REQUESTS_SSL_VERIFYHOST = False,
       CONFIG_REQUESTS_SSL_VERIFYPEER = False,
       CONFIG_REQUESTS_HTTPS_PORT = 443,
       CONFIG_REQUESTS_HTTP_PORT = 80,
       CONFIG_REQUESTS_URL_LEN = 64,
       NI_MAXHOST = 64,
       NET_IPV4_MTU = 576 \<rparr>"

definition cfg_tls :: config where
  "cfg_tls = cfg_plain\<lparr> CONFIG_NET_SOCKETS_SOCKOPT_TLS := True \<rparr>"

text \<open>
  The answer of the host's URL parser for one URL: offset and length of the schema, the
  host, the port and the path, in this order (\<open>(0, 0)\<close> for a field the URL does not have).
\<close>

definition url_fields_at ::
  "nat \<times> nat \<Rightarrow> nat \<times> nat \<Rightarrow> nat \<times> nat \<Rightarrow> nat \<times> nat \<Rightarrow> http_parser_url" where
  "url_fields_at s h p pa =
     \<lparr> field_set = 0,
       field_data = (\<lambda>f. case f of
           UF_SCHEMA \<Rightarrow> \<lparr> off = fst s, len = snd s \<rparr>
         | UF_HOST \<Rightarrow> \<lparr> off = fst h, len = snd h \<rparr>
         | UF_PORT \<Rightarrow> \<lparr> off = fst p, len = snd p \<rparr>
         | UF_PATH \<Rightarrow> \<lparr> off = fst pa, len = snd pa \<rparr>
         | _ \<Rightarrow> \<lparr> off = 0, len = 0 \<rparr>) \<rparr>"

definition parse_as :: "http_parser_url \<Rightarrow> url_parser" where
  "parse_as purl = (\<lambda>url n. (0, purl))"

definition no_bytes :: "nat \<Rightarrow> char" where
  "no_bytes = (\<lambda>_. NUL)"

text \<open>
  \<open>https://example.com:8443/a/b\<close>, \<open>https://example.com\<close>, \<open>http://example.com\<close>
  and a URL of 68 bytes.
\<close>

definition url_8443 :: string where
  "url_8443 = ''https://example.com:8443/a/b''"

definition purl_8443 :: http_parser_url where
  "purl_8443 = url_fields_at (0, 5) (8, 11) (20, 4) (24, 4)"

definition url_https :: string where
  "url_https = ''https://example.com''"

definition purl_https :: http_parser_url where
  "purl_https = url_fields_at (0, 5) (8, 11) (0, 0) (0, 0)"

definition url_http :: string where
  "url_http = ''http://example.com''"

definition purl_http :: http_parser_url where
  "purl_http = url_fields_at (0, 4) (7, 11) (0, 0) (0, 0)"

definition url_search :: string where
  "url_search = ''http://example.com/search?q=aaaaaaaaaaaaaaaaaaaaaaaaaaaaaaaaaaaaaaaa''"

definition purl_search :: http_parser_url where
  "purl_search = url_fields_at (0, 4) (7, 11) (0, 0) (18, 7)"

text \<open>A URL whose path, \<open>/\<close> and 70 letters at offset 18, has 71 bytes.\<close>

definition url_long_path :: string where
  "url_long_path =
     ''http://example.com/aaaaaaaaaaaaaaaaaaaaaaaaaaaaaaaaaaaaaaaaaaaaaaaaaaaaaaaaaaaaaaaaaaaaaa''"

definition purl_long_path :: http_parser_url where
  "purl_long_path = url_fields_at (0, 4) (7, 11) (0, 0) (18, 71)"

text \<open>Parameters of \<open>requests_setopt\<close>: a string, and a 16-bit size.\<close>

definition string_param :: "string \<Rightarrow> parameter" where
  "string_param s =
     \<lparr> as_headers = None, as_string = s, as_bool = False, as_uint16 = 0, as_callback = 0 \<rparr>"

definition uint16_param :: "16 word \<Rightarrow> parameter" where
  "uint16_param n =
     \<lparr> as_headers = None, as_string = [], as_bool = False, as_uint16 = n, as_callback = 0 \<rparr>"

text \<open>
  A resolver that answers with two IPv4 addresses, 93.184.216.34 and then 93.184.216.35,
  and signals completion; and one that answers with the first address only.
\<close>

definition answer1 :: dns_addrinfo where
  "answer1 = \<lparr> ai_addr = \<lparr> sa_family = AF_INET, sin_port = 0, sin_addr = 0x5DB8D822 \<rparr>,
               ai_family = AF_INET \<rparr>"

definition answer2 :: dns_addrinfo where
  "answer2 = \<lparr> ai_addr = \<lparr> sa_family = AF_INET, sin_port = 0, sin_addr = 0x5DB8D823 \<rparr>,
               ai_family = AF_INET \<rparr>"

definition resolver_two :: resolver where
  "resolver_two =
     \<lparr> take_ipv4_wait = 0,
       dns_get_addr_info = (\<lambda>_. 0),
       dns_events = [(DNS_EAI_INPROGRESS, Some answer1), (DNS_EAI_INPROGRESS, Some answer2),
                     (DNS_EAI_ALLDONE, None)] \<rparr>"

definition resolver_one :: resolver where
  "resolver_one =
     resolver_two\<lparr> dns_events := [(DNS_EAI_INPROGRESS, Some answer1), (DNS_EAI_ALLDONE, None)] \<rparr>"

text \<open>A zeroed context whose host name array holds \<open>example.com\<close>.\<close>

definition ctx_example_com :: requests_ctx where
  "ctx_example_com =
     (memset_ctx cfg_plain)\<lparr> url_fields :=
        (url_fields (memset_ctx cfg_plain))\<lparr> hostname := ''example.com'' @ replicate 53 NUL \<rparr> \<rparr>"

text \<open>
  A host on which every call succeeds (\<open>socket\<close> returns descriptor 3 and the response
  handler stores status 200), and one on which every \<open>setsockopt\<close> fails with
  \<open>ENOPROTOOPT\<close>.
\<close>

definition host_ok :: host where
  "host_ok =
     \<lparr> socket = (\<lambda>_. 3),
       errno = 0,
       setsockopt = (\<lambda>_ _. 0),
       connect = (\<lambda>_ _. 0),
       http_client_req = (\<lambda>_ _ ctx. (0, ctx\<lparr> status_code := 200 \<rparr>)) \<rparr>"

definition host_setsockopt_fails :: host where
  "host_setsockopt_fails = host_ok\<lparr> errno := 109, setsockopt := (\<lambda>_ _. - 1) \<rparr>"

text \<open>A host that has no descriptor left: \<open>socket\<close> fails with \<open>ENFILE\<close>.\<close>

definition host_no_socket :: host where
  "host_no_socket = host_ok\<lparr> errno := 23, socket := (\<lambda>_. - 1) \<rparr>"

text \<open>The context for \<open>example.com\<close> with host verification switched on.\<close>

definition ctx_verifyhost :: requests_ctx where
  "ctx_verifyhost = ctx_example_com\<lparr> is_ssl_verifyhost := True \<rparr>"

text \<open>
  The context pointer a caller holds after \<open>requests_init\<close>: the context when the call
  returned.
\<close>

definition ctx_after :: "(nat \<times> requests_ctx) outcome \<Rightarrow> requests_ctx option" where
  "ctx_after r = map_option (snd \<circ> snd) (returned r)"

section \<open>Facts about C strings\<close>

lemma c_str_append_NUL: "NUL \<notin> set xs \<Longrightarrow> c_str (xs @ NUL # ys) = xs"
  by (induction xs) (auto simp: c_str_def)

lemma c_str_no_NUL: "NUL \<notin> set (c_str s)"
  by (induction s) (auto simp: c_str_def)

lemma length_strncpy_bytes: "length (strncpy_bytes src n) = n"
  by (simp add: strncpy_bytes_def)

lemma c_str_strncpy_bytes: "c_str (strncpy_bytes src n @ NUL # ys) = take n (c_str src)"
proof -
  let ?s = "take n (c_str src)"
  let ?pad = "replicate (n - length ?s) NUL @ ys"
  have no_nul: "NUL \<notin> set ?s"
    using c_str_no_NUL [of src] by (auto dest: in_set_takeD)
  have eq: "strncpy_bytes src n @ NUL # ys = ?s @ NUL # ?pad"
    unfolding strncpy_bytes_def by (simp only: append_assoc replicate_app_Cons_same)
  have "c_str (?s @ NUL # ?pad) = ?s"
    using no_nul by (rule c_str_append_NUL)
  then show ?thesis
    by (simp only: eq)
qed

lemma drop_to_last: "buf \<noteq> [] \<Longrightarrow> drop (length buf - 1) buf = [last buf]"
  by (induction buf rule: rev_induct) auto

lemma strncpy_keeps_last:
  assumes "buf \<noteq> []" and "last buf = NUL"
  shows "strncpy buf src (length buf - 1) = strncpy_bytes src (length buf - 1) @ [NUL]"
  using assms by (simp add: strncpy_def drop_to_last del: One_nat_def)

section \<open>Option store\<close>

text \<open>
  The arrays of a context that \<open>requests_init\<close> has zeroed end in NUL, and
  \<open>requests_setopt\<close> keeps that.
\<close>

lemma memset_ctx_terminated:
  "0 < NET_IPV4_MTU cfg \<Longrightarrow>
     payload (memset_ctx cfg) \<noteq> [] \<and> last (payload (memset_ctx cfg)) = NUL
   \<and> protocol (memset_ctx cfg) \<noteq> [] \<and> last (protocol (memset_ctx cfg)) = NUL"
  by (auto simp: memset_ctx_def)

lemma setopt_keeps_terminated:
  assumes "payload ctx \<noteq> []" and "last (payload ctx) = NUL"
    and "protocol ctx \<noteq> []" and "last (protocol ctx) = NUL"
  shows "payload (requests_setopt ctx opt p) \<noteq> [] \<and> last (payload (requests_setopt ctx opt p)) = NUL
       \<and> protocol (requests_setopt ctx opt p) \<noteq> [] \<and> last (protocol (requests_setopt ctx opt p)) = NUL"
  using assms
  by (cases opt) (simp_all add: requests_setopt_def strncpy_keeps_last del: One_nat_def)

text \<open>
  Claim C10. For every input string, \<open>requests_setopt\<close> with \<open>REQUESTS_POSTFIELDS\<close> or
  \<open>REQUESTS_PROTOCOL\<close> writes capacity minus one bytes into the context's array and
  leaves the array's last byte, which is NUL in an initialised context, as it is: the array
  keeps its length, it stays NUL-terminated, and the string it holds is the input cut to
  at most capacity minus one bytes. The function returns the context and no error.
\<close>

theorem setopt_strings_truncate:
  assumes "payload ctx \<noteq> []" and "last (payload ctx) = NUL"
    and "protocol ctx \<noteq> []" and "last (protocol ctx) = NUL"
  shows "payload (requests_setopt ctx REQUESTS_POSTFIELDS p)
           = strncpy_bytes (as_string p) (length (payload ctx) - 1) @ [NUL]
       \<and> length (strncpy_bytes (as_string p) (length (payload ctx) - 1)) = length (payload ctx) - 1
       \<and> length (payload (requests_setopt ctx REQUESTS_POSTFIELDS p)) = length (payload ctx)
       \<and> c_str (payload (requests_setopt ctx REQUESTS_POSTFIELDS p))
           = take (length (payload ctx) - 1) (c_str (as_string p))
       \<and> protocol (requests_setopt ctx REQUESTS_PROTOCOL p)
           = strncpy_bytes (as_string p) (length (protocol ctx) - 1) @ [NUL]
       \<and> length (strncpy_bytes (as_string p) (length (protocol ctx) - 1)) = length (protocol ctx) - 1
       \<and> length (protocol (requests_setopt ctx REQUESTS_PROTOCOL p)) = length (protocol ctx)
       \<and> c_str (protocol (requests_setopt ctx REQUESTS_PROTOCOL p))
           = take (length (protocol ctx) - 1) (c_str (as_string p))"
  using assms
  by (simp add: requests_setopt_def strncpy_keeps_last c_str_strncpy_bytes length_strncpy_bytes
      del: One_nat_def)

text \<open>
  Witness for C10: in a zeroed context the protocol array has 16 bytes, and a protocol
  string of 24 bytes is stored as its first 15 bytes.
\<close>

theorem setopt_strings_truncate_witness:
  "payload (memset_ctx cfg_plain) \<noteq> [] \<and> last (payload (memset_ctx cfg_plain)) = NUL
 \<and> protocol (memset_ctx cfg_plain) \<noteq> [] \<and> last (protocol (memset_ctx cfg_plain)) = NUL
 \<and> length (protocol (requests_setopt (memset_ctx cfg_plain) REQUESTS_PROTOCOL
              (string_param ''HTTP/1.1-and-a-long-tail''))) = 16
 \<and> c_str (protocol (requests_setopt (memset_ctx cfg_plain) REQUESTS_PROTOCOL
              (string_param ''HTTP/1.1-and-a-long-tail''))) = ''HTTP/1.1-and-a-''"
proof -
  have h: "payload (memset_ctx cfg_plain) \<noteq> []" "last (payload (memset_ctx cfg_plain)) = NUL"
    "protocol (memset_ctx cfg_plain) \<noteq> []" "last (protocol (memset_ctx cfg_plain)) = NUL"
    by (simp_all add: memset_ctx_def cfg_plain_def)
  have l: "length (protocol (memset_ctx cfg_plain)) = 16"
    by (simp add: memset_ctx_def)
  have s: "take 15 (c_str (as_string (string_param ''HTTP/1.1-and-a-long-tail'')))
             = ''HTTP/1.1-and-a-''"
    by (simp add: string_param_def c_str_def NUL_def)
  note t = setopt_strings_truncate [OF h, of "string_param ''HTTP/1.1-and-a-long-tail''"]
  from t have "length (protocol (requests_setopt (memset_ctx cfg_plain) REQUESTS_PROTOCOL
                 (string_param ''HTTP/1.1-and-a-long-tail''))) = length (protocol (memset_ctx cfg_plain))"
    by blast
  then have a: "length (protocol (requests_setopt (memset_ctx cfg_plain) REQUESTS_PROTOCOL
                 (string_param ''HTTP/1.1-and-a-long-tail''))) = 16"
    by (simp only: l)
  from t have "c_str (protocol (requests_setopt (memset_ctx cfg_plain) REQUESTS_PROTOCOL
                 (string_param ''HTTP/1.1-and-a-long-tail'')))
               = take (length (protocol (memset_ctx cfg_plain)) - 1)
                   (c_str (as_string (string_param ''HTTP/1.1-and-a-long-tail'')))"
    by blast
  then have b: "c_str (protocol (requests_setopt (memset_ctx cfg_plain) REQUESTS_PROTOCOL
                 (string_param ''HTTP/1.1-and-a-long-tail''))) = ''HTTP/1.1-and-a-''"
    using s by (simp add: l)
  from h a b show ?thesis
    by blast
qed

text \<open>
  Claim C5. \<open>requests_setopt\<close> has no case for \<open>REQUESTS_POSTFIELDS_SIZE\<close>: the call
  leaves every context as it is, so after setting the size to 27 in a zeroed context the
  field \<open>payload_size\<close> is still 0.
\<close>

theorem setopt_postfields_size_ignored:
  "requests_setopt ctx REQUESTS_POSTFIELDS_SIZE p = ctx
 \<and> payload_size (requests_setopt (memset_ctx cfg_plain) REQUESTS_POSTFIELDS_SIZE (uint16_param 27)) = 0"
  by (simp add: requests_setopt_def memset_ctx_def)

text \<open>The other option without a case, and the options that do overwrite a field.\<close>

lemma setopt_userpwd_ignored: "requests_setopt ctx REQUESTS_USERPWD p = ctx"
  by (simp add: requests_setopt_def)

lemma setopt_overwrites:
  "headers (requests_setopt ctx REQUESTS_HTTPHEADERS p) = as_headers p"
  "is_ssl_verifyhost (requests_setopt ctx REQUESTS_SSL_VERIFYHOST p) = as_bool p"
  "is_ssl_verifypeer (requests_setopt ctx REQUESTS_SSL_VERIFYPEER p) = as_bool p"
  "cb (requests_setopt ctx REQUESTS_WRITEFUNCTION p) = as_callback p"
  by (simp_all add: requests_setopt_def)


section \<open>Connection establisher and request executor\<close>

lemma connect_setup_no_close: "Close fd \<notin> set (snd (snd (requests_connect_setup cfg h ctx)))"
  by (simp add: requests_connect_setup_def Let_def)

lemma connect_setup_sockfd:
  "sockfd (fst (snd (requests_connect_setup cfg h ctx)))
     = socket h (if CONFIG_NET_SOCKETS_SOCKOPT_TLS cfg then IPPROTO_TLS_1_2 else IPPROTO_TCP)"
  by (simp add: requests_connect_setup_def Let_def)

text \<open>
  Once the setup has succeeded, the descriptor is closed exactly once: by
  \<open>requests_connect\<close> when \<open>connect\<close> fails, and by \<open>requests\<close> after the exchange
  otherwise (the response handler leaving the descriptor field alone).
\<close>

lemma requests_closes_once_after_setup:
  assumes "requests_connect_setup cfg h ctx = (ret0, ctx0, tr0)" and "0 \<le> ret0"
    and "\<And>fd req c. sockfd (snd (http_client_req h fd req c)) = sockfd c"
  shows "closes (sockfd ctx0) (snd (snd (requests cfg h (Some ctx) m))) = 1"
proof -
  have nc: "count_list tr0 (Close (sockfd ctx0)) = 0"
    using connect_setup_no_close [of "sockfd ctx0" cfg h ctx] assms(1)
    by (simp add: count_list_0_iff)
  let ?sa = "(sa ctx0)\<lparr> sin_port := port (url_fields ctx0), sa_family := AF_INET \<rparr>"
  show ?thesis
  proof (cases "connect h (sockfd ctx0) ?sa < 0")
    case True
    then show ?thesis
      using assms(1,2) nc
      by (simp add: requests_def requests_connect_def closes_def Let_def ECONNABORTED_def)
  next
    case False
    obtain r c where e: "http_client_req h (sockfd ctx0) (build_req (ctx0\<lparr> sa := ?sa \<rparr>) m)
                           (ctx0\<lparr> sa := ?sa \<rparr>) = (r, c)"
      by (cases "http_client_req h (sockfd ctx0) (build_req (ctx0\<lparr> sa := ?sa \<rparr>) m)
                   (ctx0\<lparr> sa := ?sa \<rparr>)")
    have "sockfd c = sockfd ctx0"
      using assms(3) [of "sockfd ctx0" "build_req (ctx0\<lparr> sa := ?sa \<rparr>) m" "ctx0\<lparr> sa := ?sa \<rparr>"] e
      by simp
    then show ?thesis
      using assms(1,2) nc False e
      by (simp add: requests_def requests_connect_def closes_def Let_def)
  qed
qed

text \<open>
  Claim C1. In a TLS build, for a context initialised for \<open>https://example.com:8443/a/b\<close>,
  when \<open>socket\<close> returns descriptor 3 and \<open>setsockopt\<close> fails, \<open>requests\<close> returns
  \<open>-ECONNABORTED\<close> after two calls, the creation of the socket and the failed
  \<open>setsockopt\<close>: descriptor 3 is never closed, and the context still holds it.
\<close>

theorem requests_tls_setup_failure_leaks_socket:
  "fst (requests cfg_tls host_setsockopt_fails
          (ctx_after (requests_init cfg_tls (parse_as purl_8443) no_bytes resolver_one 0 url_8443))
          HTTP_GET) = - ECONNABORTED
 \<and> snd (snd (requests cfg_tls host_setsockopt_fails
          (ctx_after (requests_init cfg_tls (parse_as purl_8443) no_bytes resolver_one 0 url_8443))
          HTTP_GET))
     = [Socket AF_INET IPPROTO_TLS_1_2, Setsockopt 3 (TLS_PEER_VERIFY 0)]
 \<and> closes 3 (snd (snd (requests cfg_tls host_setsockopt_fails
          (ctx_after (requests_init cfg_tls (parse_as purl_8443) no_bytes resolver_one 0 url_8443))
          HTTP_GET))) = 0
 \<and> map_option sockfd (fst (snd (requests cfg_tls host_setsockopt_fails
          (ctx_after (requests_init cfg_tls (parse_as purl_8443) no_bytes resolver_one 0 url_8443))
          HTTP_GET))) = Some 3"
  by code_simp

text \<open>
  The integer passed for \<open>TLS_PEER_VERIFY\<close> does not depend on the descriptor. It is 0
  when the flag is off and the three bytes behind it are zero, as in a context that
  \<open>requests_init\<close> has just zeroed; with the status 200 of an earlier exchange still in
  the context it is \<open>0xC8000000\<close> read as an \<open>int\<close>.
\<close>

lemma peer_verify_int_sockfd: "peer_verify_int (ctx\<lparr> sockfd := fd \<rparr>) = peer_verify_int ctx"
  by (simp add: peer_verify_int_def)

lemma peer_verify_int_zero:
  "\<not> is_ssl_verifypeer ctx \<Longrightarrow> padding ctx = 0 \<Longrightarrow> status_code ctx mod 256 = 0 \<Longrightarrow>
     peer_verify_int ctx = 0"
  by (simp add: peer_verify_int_def)

lemma peer_verify_int_status_200:
  "peer_verify_int ((memset_ctx cfg)\<lparr> status_code := 200 \<rparr>) = - 939524096"
  by (simp add: peer_verify_int_def memset_ctx_def)

text \<open>
  Counterexample to C9: in a TLS build with the verify-peer flag false there are setups
  that make no peer-verification call at all. When \<open>socket\<close> fails the only call is the
  failed \<open>socket\<close>; when host verification is on and binding the host name fails, the
  calls are \<open>socket\<close> and the failed \<open>setsockopt\<close> for \<open>TLS_HOSTNAME\<close>.
\<close>

theorem connect_setup_peer_verify_counterexample:
  "CONFIG_NET_SOCKETS_SOCKOPT_TLS cfg_tls
 \<and> \<not> is_ssl_verifypeer ctx_example_com
 \<and> snd (snd (requests_connect_setup cfg_tls host_no_socket ctx_example_com))
      = [Socket AF_INET IPPROTO_TLS_1_2]
 \<and> \<not> is_ssl_verifypeer ctx_verifyhost
 \<and> snd (snd (requests_connect_setup cfg_tls host_setsockopt_fails ctx_verifyhost))
      = [Socket AF_INET IPPROTO_TLS_1_2,
         Setsockopt 3 (TLS_HOSTNAME (hostname (url_fields ctx_example_com)) 64)]
 \<and> fst (requests_connect_setup cfg_tls host_setsockopt_fails ctx_verifyhost) = - 1"
  by code_simp

text \<open>
  Claim C9, amended. For every connection setup with TLS enabled: when the socket was
  created and binding the host name, if host verification is on, did not fail, the setup
  configures peer verification by exactly one kind of call. With the verify-peer flag false
  it sets the TLS peer-verify option on the socket and binds no trust-anchor tag; the value
  it sets is 0, no verification, for a context whose status code and padding are zero as
  \<open>requests_init\<close> leaves them. With the flag true it binds the CA certificate's tag and
  does not set the peer-verify option. When the socket was not created or binding the host
  name failed, the setup has returned before any peer-verification call.
\<close>

theorem connect_setup_peer_verify:
  assumes "CONFIG_NET_SOCKETS_SOCKOPT_TLS cfg"
    and "requests_connect_setup cfg h ctx = (ret, ctx', tr)"
  shows "(0 \<le> socket h IPPROTO_TLS_1_2
          \<and> (is_ssl_verifyhost ctx \<longrightarrow>
                0 \<le> setsockopt h (socket h IPPROTO_TLS_1_2)
                      (TLS_HOSTNAME (hostname (url_fields ctx))
                         (length (hostname (url_fields ctx)))))
          \<longrightarrow>
            (\<not> is_ssl_verifypeer ctx \<longrightarrow>
               (\<exists>v. Setsockopt (sockfd ctx') (TLS_PEER_VERIFY v) \<in> set tr)
             \<and> (padding ctx = 0 \<and> status_code ctx mod 256 = 0 \<longrightarrow>
                  Setsockopt (sockfd ctx') (TLS_PEER_VERIFY 0) \<in> set tr)
             \<and> (\<forall>fd tags. Setsockopt fd (TLS_SEC_TAG_LIST tags) \<notin> set tr))
          \<and> (is_ssl_verifypeer ctx \<longrightarrow>
               Setsockopt (sockfd ctx') (TLS_SEC_TAG_LIST [CA_CERTIFICATE_TAG]) \<in> set tr
             \<and> (\<forall>fd v. Setsockopt fd (TLS_PEER_VERIFY v) \<notin> set tr)))
       \<and> (\<not> (0 \<le> socket h IPPROTO_TLS_1_2
              \<and> (is_ssl_verifyhost ctx \<longrightarrow>
                    0 \<le> setsockopt h (socket h IPPROTO_TLS_1_2)
                          (TLS_HOSTNAME (hostname (url_fields ctx))
                             (length (hostname (url_fields ctx))))))
          \<longrightarrow>
            (\<forall>fd v. Setsockopt fd (TLS_PEER_VERIFY v) \<notin> set tr)
          \<and> (\<forall>fd tags. Setsockopt fd (TLS_SEC_TAG_LIST tags) \<notin> set tr))"
proof -
  let ?fd = "socket h IPPROTO_TLS_1_2"
  let ?host = "TLS_HOSTNAME (hostname (url_fields ctx)) (length (hostname (url_fields ctx)))"
  have z: "padding ctx = 0 \<Longrightarrow> status_code ctx mod 256 = 0 \<Longrightarrow> \<not> is_ssl_verifypeer ctx \<Longrightarrow>
             peer_verify_int (ctx\<lparr> sockfd := ?fd \<rparr>) = 0"
    by (simp add: peer_verify_int_sockfd peer_verify_int_zero)
  show ?thesis
  proof (cases "0 \<le> ?fd \<and> (is_ssl_verifyhost ctx \<longrightarrow> 0 \<le> setsockopt h ?fd ?host)")
    case True
    then show ?thesis
      using assms z
      by (auto simp: requests_connect_setup_def Let_def split: if_splits)
  next
    case False
    then show ?thesis
      using assms
      by (auto simp: requests_connect_setup_def Let_def split: if_splits)
  qed
qed

text \<open>
  Witness for C9: a zeroed context has both verification flags off and status code 0; on a
  host where every call succeeds the TLS setup creates the socket and sets the peer-verify
  option to 0.
\<close>

theorem connect_setup_peer_verify_witness:
  "CONFIG_NET_SOCKETS_SOCKOPT_TLS cfg_tls
 \<and> 0 \<le> socket host_ok IPPROTO_TLS_1_2
 \<and> \<not> is_ssl_verifyhost (memset_ctx cfg_tls)
 \<and> \<not> is_ssl_verifypeer (memset_ctx cfg_tls)
 \<and> padding (memset_ctx cfg_tls) = 0
 \<and> status_code (memset_ctx cfg_tls) mod 256 = 0
 \<and> snd (snd (requests_connect_setup cfg_tls host_ok (memset_ctx cfg_tls)))
      = [Socket AF_INET IPPROTO_TLS_1_2, Setsockopt 3 (TLS_PEER_VERIFY 0)]
 \<and> Setsockopt 3 (TLS_PEER_VERIFY 0)
      \<in> set (snd (snd (requests_connect_setup cfg_tls host_ok (memset_ctx cfg_tls))))"
proof -
  have a: "CONFIG_NET_SOCKETS_SOCKOPT_TLS cfg_tls"
    by (simp add: cfg_tls_def)
  have b: "0 \<le> socket host_ok IPPROTO_TLS_1_2"
    by (simp add: host_ok_def)
  have c: "\<not> is_ssl_verifyhost (memset_ctx cfg_tls)" "\<not> is_ssl_verifypeer (memset_ctx cfg_tls)"
    "padding (memset_ctx cfg_tls) = 0" "status_code (memset_ctx cfg_tls) mod 256 = 0"
    by (simp_all add: memset_ctx_def)
  have d: "requests_connect_setup cfg_tls host_ok (memset_ctx cfg_tls)
             = (0, (memset_ctx cfg_tls)\<lparr> sockfd := 3 \<rparr>,
                [Socket AF_INET IPPROTO_TLS_1_2, Setsockopt 3 (TLS_PEER_VERIFY 0)])"
    using a c
    by (simp add: requests_connect_setup_def host_ok_def Let_def peer_verify_int_sockfd
        peer_verify_int_zero)
  have "Setsockopt (sockfd ((memset_ctx cfg_tls)\<lparr> sockfd := 3 \<rparr>)) (TLS_PEER_VERIFY 0)
          \<in> set [Socket AF_INET IPPROTO_TLS_1_2, Setsockopt 3 (TLS_PEER_VERIFY 0)]"
    using connect_setup_peer_verify [OF a d] b c by blast
  then show ?thesis
    using a b c d by simp
qed

text \<open>
  Claim C6. For a POST of the body \<open>hello\<close> with \<open>payload_size\<close> 5, on a host where
  every call succeeds, the request descriptor handed to the HTTP client carries the payload
  array with the length 576, the capacity of the array, and not the declared length 5.
\<close>

theorem requests_post_payload_len_is_capacity:
  "snd (snd (requests cfg_plain host_ok
       (Some ((requests_setopt (memset_ctx cfg_plain) REQUESTS_POSTFIELDS (string_param ''hello''))
                \<lparr> payload_size := 5 \<rparr>))
       HTTP_POST))
   = [Socket AF_INET IPPROTO_TCP,
      Connect 3 \<lparr> sa_family = AF_INET, sin_port = 0, sin_addr = 0 \<rparr>,
      Http_client_req 3
        (build_req ((requests_setopt (memset_ctx cfg_plain) REQUESTS_POSTFIELDS (string_param ''hello''))
                      \<lparr> payload_size := 5, sockfd := 3,
                        sa := \<lparr> sa_family = AF_INET, sin_port = 0, sin_addr = 0 \<rparr> \<rparr>) HTTP_POST),
      Close 3]
 \<and> req_payload_len
       (build_req ((requests_setopt (memset_ctx cfg_plain) REQUESTS_POSTFIELDS (string_param ''hello''))
                      \<lparr> payload_size := 5, sockfd := 3,
                        sa := \<lparr> sa_family = AF_INET, sin_port = 0, sin_addr = 0 \<rparr> \<rparr>) HTTP_POST) = 576
 \<and> map_option c_str
       (req_payload
          (build_req ((requests_setopt (memset_ctx cfg_plain) REQUESTS_POSTFIELDS (string_param ''hello''))
                      \<lparr> payload_size := 5, sockfd := 3,
                        sa := \<lparr> sa_family = AF_INET, sin_port = 0, sin_addr = 0 \<rparr> \<rparr>) HTTP_POST))
     = Some ''hello''"
  by code_simp

text \<open>
  What the descriptor carries in general: the payload array and its capacity for POST and
  PUT, no payload for any other method; \<open>payload_size\<close> has no part in it.
\<close>

lemma build_req_payload:
  "req_payload (build_req ctx m)
     = (if m = HTTP_POST \<or> m = HTTP_PUT then Some (payload ctx) else None)"
  "req_payload_len (build_req ctx m)
     = (if m = HTTP_POST \<or> m = HTTP_PUT then length (payload ctx) else 0)"
  "build_req (ctx\<lparr> payload_size := n \<rparr>) m = build_req ctx m"
  by (simp_all add: build_req_def memset_req_def Let_def)

text \<open>
  Counterexample to C8: a context that \<open>requests_init\<close> never filled in (all zero: no
  parsed URL, no resolved address) is not rejected. On a host where every call succeeds
  \<open>requests\<close> returns 0 after it has created a socket, connected it, sent the request and
  closed the socket.
\<close>

theorem requests_unprepared_counterexample:
  "\<not> (fst (requests cfg_plain host_ok (Some (memset_ctx cfg_plain)) HTTP_GET) = - EINVAL
      \<and> snd (snd (requests cfg_plain host_ok (Some (memset_ctx cfg_plain)) HTTP_GET)) = [])"
  by code_simp

text \<open>
  Claim C8, amended. \<open>requests\<close> fails with \<open>-EINVAL\<close> without any call to the socket
  layer when the context pointer is null; for every context that is not null, whatever it
  holds, the connection step is performed: the first call is the creation of the socket.
\<close>

theorem requests_invalid_argument_only_null:
  "requests cfg h None m = (- EINVAL, None, [])
 \<and> (\<exists>ret ctx' tr. requests cfg h (Some ctx) m
        = (ret, ctx',
           Socket AF_INET (if CONFIG_NET_SOCKETS_SOCKOPT_TLS cfg then IPPROTO_TLS_1_2 else IPPROTO_TCP)
             # tr))"
  by (auto simp: requests_def requests_connect_def requests_connect_setup_def Let_def
      split: prod.splits if_splits)

section \<open>URL parser\<close>

lemma length_memcpy_from: "length (memcpy_from url beyond ofs n) = n"
  by (simp add: memcpy_from_def)

lemma fields_get_reject:
  "len (field_data purl f) = 0 \<or> field_len \<le> len (field_data purl f) \<Longrightarrow>
   requests_url_fields_get url beyond purl f field field_len = Returns (- EINVAL) field"
  by (auto simp: requests_url_fields_get_def Let_def)

lemma fields_get_copy:
  assumes "0 < len (field_data purl f)" and "len (field_data purl f) < length field"
    and "f \<noteq> UF_PATH"
  shows "requests_url_fields_get url beyond purl f field (length field) =
     Returns 0 (memcpy_from url beyond (off (field_data purl f)) (len (field_data purl f))
                 @ NUL # drop (Suc (len (field_data purl f))) field)"
  using assms
  by (simp add: requests_url_fields_get_def Let_def store_def length_memcpy_from)

lemma fields_get_path:
  assumes "0 < len (field_data purl UF_PATH)" and "len (field_data purl UF_PATH) < length field"
  shows "requests_url_fields_get url beyond purl UF_PATH field (length field) =
     (if strlen url < length field
      then Returns 0 (memcpy_from url beyond (off (field_data purl UF_PATH)) (strlen url)
                 @ NUL # drop (Suc (strlen url)) field)
      else Overrun (Suc (strlen url)) (length field))"
  using assms
  by (auto simp: requests_url_fields_get_def Let_def store_def length_memcpy_from)

lemma fields_get_port:
  "requests_url_fields_get url beyond purl UF_PORT (replicate 6 NUL) 6 =
    (if len (field_data purl UF_PORT) = 0 \<or> 6 \<le> len (field_data purl UF_PORT)
     then Returns (- EINVAL) (replicate 6 NUL)
     else Returns 0
            (memcpy_from url beyond (off (field_data purl UF_PORT)) (len (field_data purl UF_PORT))
               @ NUL # drop (Suc (len (field_data purl UF_PORT))) (replicate 6 NUL)))"
  using fields_get_reject [of purl UF_PORT 6 url beyond "replicate 6 NUL"]
        fields_get_copy [of purl UF_PORT "replicate 6 NUL" url beyond]
  by (auto simp del: drop_replicate)

subsection \<open>Decimal numbers and \<open>atoi\<close>\<close>

lemma digit_char_code: "k < 10 \<Longrightarrow> (of_char (digit_char k) :: nat) = 48 + k"
proof -
  assume "k < 10"
  then have "k \<in> {0, 1, 2, 3, 4, 5, 6, 7, 8, 9}"
    by auto
  then show ?thesis
    by (auto simp: digit_char_def)
qed

lemma of_char_digit: "k < 10 \<Longrightarrow> (of_char (digit_char k) :: int) = 48 + int k"
proof -
  assume k: "k < 10"
  have "(of_char (digit_char k) :: int) = int (of_char (digit_char k))"
    by (simp only: of_nat_of_char)
  also have "\<dots> = int (48 + k)"
    using k by (simp only: digit_char_code)
  finally show ?thesis
    by simp
qed

lemma isdigit_digit_char: "k < 10 \<Longrightarrow> isdigit (digit_char k)"
  by (simp add: isdigit_def digit_char_code)

lemma isdigit_dec: "c \<in> set (dec n) \<Longrightarrow> isdigit c"
proof (induction n arbitrary: c rule: dec.induct)
  case (1 n)
  show ?case
  proof (cases "n < 10")
    case True
    with "1.prems" have "c = digit_char n"
      by (simp add: dec.simps [of n])
    with True show ?thesis
      by (simp add: isdigit_digit_char)
  next
    case False
    with "1.prems" have "c \<in> set (dec (n div 10)) \<or> c = digit_char (n mod 10)"
      by (auto simp: dec.simps [of n])
    then show ?thesis
    proof
      assume "c \<in> set (dec (n div 10))"
      with False "1.IH" show ?thesis
        by simp
    next
      assume "c = digit_char (n mod 10)"
      then show ?thesis
        by (simp add: isdigit_digit_char)
    qed
  qed
qed

lemma isdigit_plain:
  "isdigit c \<Longrightarrow> \<not> isspace c \<and> c \<noteq> CHR ''-'' \<and> c \<noteq> CHR ''+'' \<and> c \<noteq> NUL"
  by (auto simp: isdigit_def isspace_def NUL_def)

lemma dec_nonempty: "dec n \<noteq> []"
  by (subst dec.simps) simp

lemma length_dec: "0 < k \<Longrightarrow> n < 10 ^ k \<Longrightarrow> length (dec n) \<le> k"
proof (induction n arbitrary: k rule: dec.induct)
  case (1 n)
  show ?case
  proof (cases "n < 10")
    case True
    with "1.prems" show ?thesis
      by (simp add: dec.simps [of n])
  next
    case False
    obtain j where k: "k = Suc j"
      using "1.prems"(1) by (cases k) auto
    from False "1.prems"(2) have "0 < j"
      unfolding k by (cases j) auto
    moreover from "1.prems"(2) have "n div 10 < 10 ^ j"
      unfolding k by (simp add: less_mult_imp_div_less)
    ultimately have "length (dec (n div 10)) \<le> j"
      using "1.IH" False by simp
    then show ?thesis
      using False by (simp add: dec.simps [of n] k)
  qed
qed

lemma atoi_digits_append:
  "(\<And>c. c \<in> set xs \<Longrightarrow> isdigit c) \<Longrightarrow>
     atoi_digits a (xs @ ys) = atoi_digits (atoi_digits a xs) ys"
  by (induction xs arbitrary: a) auto

lemma atoi_digits_dec: "atoi_digits 0 (dec n) = int n"
proof (induction n rule: dec.induct)
  case (1 n)
  show ?case
  proof (cases "n < 10")
    case True
    then show ?thesis
      by (simp add: dec.simps [of n] isdigit_digit_char of_char_digit)
  next
    case False
    have m: "n mod 10 < 10"
      by simp
    have "atoi_digits 0 (dec n)
            = atoi_digits (atoi_digits 0 (dec (n div 10))) [digit_char (n mod 10)]"
      using False by (simp add: dec.simps [of n] atoi_digits_append isdigit_dec)
    also have "\<dots> = int (n div 10) * 10 + int (n mod 10)"
      using False "1.IH" m by (simp add: of_char_digit isdigit_digit_char)
    also have "\<dots> = int n"
      by presburger
    finally show ?thesis .
  qed
qed

text \<open>\<open>atoi\<close> reads back a number written in decimal, whatever follows its terminator.\<close>

lemma atoi_dec: "atoi (dec n @ NUL # rest) = int n"
proof -
  have "NUL \<notin> set (dec n)"
    using isdigit_dec isdigit_plain by blast
  then have cs: "c_str (dec n @ NUL # rest) = dec n"
    by (rule c_str_append_NUL)
  obtain c cs where d: "dec n = c # cs"
    using dec_nonempty [of n] by (cases "dec n") auto
  then have "isdigit c"
    using isdigit_dec [of c n] by simp
  then have "\<not> isspace c" "c \<noteq> CHR ''-''" "c \<noteq> CHR ''+''"
    using isdigit_plain by blast+
  then have "atoi (dec n @ NUL # rest) = atoi_digits 0 (dec n)"
    unfolding atoi_def cs by (simp add: d)
  then show ?thesis
    by (simp add: atoi_digits_dec)
qed

subsection \<open>The port\<close>

lemma parser_port:
  assumes "http_parser_parse_url url (strlen url) = (r, purl)"
    and "requests_url_parser cfg http_parser_parse_url beyond ctx url = Returns 0 ctx'"
  shows "port (url_fields ctx') =
     (case requests_url_fields_get url beyond purl UF_PORT (replicate 6 NUL) 6 of
        Returns ret port_ascii \<Rightarrow>
          if ret < 0 then default_port cfg else word_of_int (atoi port_ascii)
      | Overrun n c \<Rightarrow> 0)"
  using assms
  unfolding requests_url_parser_def on_return_def default_port_def Let_def
  by (auto split: outcome.splits if_splits)

text \<open>
  Claim C2. The default port does not follow the schema. In a build without TLS,
  \<open>https://example.com\<close> is parsed with schema \<open>https\<close> and port 80, not 443; in a build
  with TLS, \<open>http://example.com\<close> is parsed with schema \<open>http\<close> and port 443, not 80.
\<close>

theorem parser_default_port_ignores_schema:
  "map_option fst (returned (requests_url_parser cfg_plain (parse_as purl_https) no_bytes
       (memset_ctx cfg_plain) url_https)) = Some 0
 \<and> map_option (c_str \<circ> schema \<circ> url_fields \<circ> snd)
       (returned (requests_url_parser cfg_plain (parse_as purl_https) no_bytes
          (memset_ctx cfg_plain) url_https)) = Some ''https''
 \<and> map_option (port \<circ> url_fields \<circ> snd)
       (returned (requests_url_parser cfg_plain (parse_as purl_https) no_bytes
          (memset_ctx cfg_plain) url_https)) = Some 80
 \<and> map_option fst (returned (requests_url_parser cfg_tls (parse_as purl_http) no_bytes
       (memset_ctx cfg_tls) url_http)) = Some 0
 \<and> map_option (c_str \<circ> schema \<circ> url_fields \<circ> snd)
       (returned (requests_url_parser cfg_tls (parse_as purl_http) no_bytes
          (memset_ctx cfg_tls) url_http)) = Some ''http''
 \<and> map_option (port \<circ> url_fields \<circ> snd)
       (returned (requests_url_parser cfg_tls (parse_as purl_http) no_bytes
          (memset_ctx cfg_tls) url_http)) = Some 443"
  by code_simp

text \<open>
  In general, whenever the parser returns 0: a URL for which the URL parser reports no port,
  or a port field of six or more characters, which the six-byte \<open>port_ascii\<close> cannot
  hold, gets the build's default port, whatever its schema; a port below 65536 written in
  decimal is stored as it is.
\<close>

lemma parser_port_of_url:
  assumes "http_parser_parse_url url (strlen url) = (r, purl)"
    and "requests_url_parser cfg http_parser_parse_url beyond ctx url = Returns 0 ctx'"
  shows "(len (field_data purl UF_PORT) = 0 \<or> 6 \<le> len (field_data purl UF_PORT)
            \<longrightarrow> port (url_fields ctx') = default_port cfg)
       \<and> (\<forall>p < 65536.
             memcpy_from url beyond (off (field_data purl UF_PORT)) (len (field_data purl UF_PORT))
               = dec p
            \<longrightarrow> port (url_fields ctx') = of_nat p)"
proof (intro conjI impI allI)
  assume "len (field_data purl UF_PORT) = 0 \<or> 6 \<le> len (field_data purl UF_PORT)"
  then show "port (url_fields ctx') = default_port cfg"
    using parser_port [OF assms] by (simp add: fields_get_port EINVAL_def)
next
  fix p :: nat
  assume p: "p < 65536"
    and m: "memcpy_from url beyond (off (field_data purl UF_PORT)) (len (field_data purl UF_PORT))
              = dec p"
  have "length (dec p) \<le> 5"
    using p by (intro length_dec) auto
  moreover have "length (dec p) = len (field_data purl UF_PORT)"
    using arg_cong [OF m, of length] by (simp add: length_memcpy_from)
  moreover have "0 < length (dec p)"
    using dec_nonempty by simp
  ultimately have n: "0 < len (field_data purl UF_PORT)" "len (field_data purl UF_PORT) < 6"
    by simp_all
  show "port (url_fields ctx') = of_nat p"
    using parser_port [OF assms] n by (simp add: fields_get_port m atoi_dec)
qed

subsection \<open>Field capacities\<close>

text \<open>
  A schema or a host name that does not fit its array makes the parser fail with
  \<open>-EINVAL\<close>, with nothing written to the array.
\<close>

lemma parser_rejects_long_schema:
  assumes "http_parser_parse_url url (strlen url) = (r, purl)" and "0 \<le> r"
    and "length (schema (url_fields ctx)) \<le> len (field_data purl UF_SCHEMA)"
  shows "requests_url_parser cfg http_parser_parse_url beyond ctx url = Returns (- EINVAL) ctx"
  using assms
  by (simp add: requests_url_parser_def on_return_def Let_def fields_get_reject EINVAL_def)

lemma parser_rejects_long_hostname:
  assumes "http_parser_parse_url url (strlen url) = (r, purl)" and "0 \<le> r"
    and "0 < len (field_data purl UF_SCHEMA)"
    and "len (field_data purl UF_SCHEMA) < length (schema (url_fields ctx))"
    and "length (hostname (url_fields ctx)) \<le> len (field_data purl UF_HOST)"
  shows "map_option fst (returned (requests_url_parser cfg http_parser_parse_url beyond ctx url))
           = Some (- EINVAL)
       \<and> map_option (hostname \<circ> url_fields \<circ> snd)
           (returned (requests_url_parser cfg http_parser_parse_url beyond ctx url))
           = Some (hostname (url_fields ctx))"
  using assms
  by (simp add: requests_url_parser_def on_return_def Let_def fields_get_reject fields_get_copy
      EINVAL_def)

text \<open>
  The path is copied with the length of the whole URL. When schema and host fit and the
  path is shorter than the \<open>uri\<close> array but the URL is not, the copy runs over the array.
\<close>

lemma parser_uri_overrun:
  assumes "http_parser_parse_url url (strlen url) = (r, purl)" and "0 \<le> r"
    and "0 < len (field_data purl UF_SCHEMA)"
    and "len (field_data purl UF_SCHEMA) < length (schema (url_fields ctx))"
    and "0 < len (field_data purl UF_HOST)"
    and "len (field_data purl UF_HOST) < length (hostname (url_fields ctx))"
    and "0 < len (field_data purl UF_PATH)"
    and "len (field_data purl UF_PATH) < length (uri (url_fields ctx))"
    and "length (uri (url_fields ctx)) \<le> strlen url"
  shows "requests_url_parser cfg http_parser_parse_url beyond ctx url
           = Overrun (Suc (strlen url)) (length (uri (url_fields ctx)))"
  using assms
  by (simp add: requests_url_parser_def on_return_def Let_def fields_get_copy fields_get_path
      fields_get_port)

lemma c_str_root: "c_str (CHR ''/'' # NUL # xs) = ''/''"
  by (simp add: c_str_def NUL_def)

text \<open>
  A path that does not fit the \<open>uri\<close> array is not an error: the parser succeeds and the
  path is \<open>/\<close>.
\<close>

lemma parser_long_path_becomes_root:
  assumes "http_parser_parse_url url (strlen url) = (r, purl)" and "0 \<le> r"
    and "0 < len (field_data purl UF_SCHEMA)"
    and "len (field_data purl UF_SCHEMA) < length (schema (url_fields ctx))"
    and "0 < len (field_data purl UF_HOST)"
    and "len (field_data purl UF_HOST) < length (hostname (url_fields ctx))"
    and "length (uri (url_fields ctx)) \<le> len (field_data purl UF_PATH)"
    and "2 \<le> length (uri (url_fields ctx))"
  shows "map_option fst (returned (requests_url_parser cfg http_parser_parse_url beyond ctx url))
           = Some 0
       \<and> map_option (c_str \<circ> uri \<circ> url_fields \<circ> snd)
           (returned (requests_url_parser cfg http_parser_parse_url beyond ctx url))
           = Some ''/''"
  using assms
  by (auto simp: requests_url_parser_def on_return_def Let_def fields_get_copy fields_get_reject
      fields_get_port store_def EINVAL_def c_str_root)

text \<open>
  Claim C3. With a \<open>uri\<close> array of 64 bytes, the URL
  \<open>http://example.com/search?q=aaaaaaaaaaaaaaaaaaaaaaaaaaaaaaaaaaaaaaaa\<close> of 68 bytes has a
  path of 7 bytes, which fits; the parser copies 68 bytes from the start of the path and
  adds a terminator, so it writes 69 bytes into the 64-byte array instead of failing.
  And a URL whose path has 71 bytes, more than the array holds, is not rejected: the parser
  returns 0 and the path stored is \<open>/\<close>.
\<close>

theorem parser_uri_overrun_at_long_url:
  "strlen url_search = 68
 \<and> len (field_data purl_search UF_PATH) = 7
 \<and> length (uri (url_fields (memset_ctx cfg_plain))) = 64
 \<and> requests_url_parser cfg_plain (parse_as purl_search) no_bytes (memset_ctx cfg_plain) url_search
      = Overrun 69 64
 \<and> len (field_data purl_long_path UF_PATH) = 71
 \<and> map_option fst (returned (requests_url_parser cfg_plain (parse_as purl_long_path) no_bytes
        (memset_ctx cfg_plain) url_long_path)) = Some 0
 \<and> map_option (c_str \<circ> uri \<circ> url_fields \<circ> snd)
        (returned (requests_url_parser cfg_plain (parse_as purl_long_path) no_bytes
           (memset_ctx cfg_plain) url_long_path)) = Some ''/''"
  by code_simp

subsection \<open>The TLS flag of the URL\<close>

text \<open>The parser never writes \<open>is_ssl\<close>.\<close>

lemma parser_keeps_is_ssl:
  "requests_url_parser cfg http_parser_parse_url beyond ctx url = Returns ret ctx' \<Longrightarrow>
     is_ssl (url_fields ctx') = is_ssl (url_fields ctx)"
  unfolding requests_url_parser_def on_return_def Let_def store_def
  by (auto split: outcome.splits if_splits prod.splits)

text \<open>
  Claim C4. In a TLS build, \<open>requests_init\<close> of \<open>https://example.com:8443/a/b\<close> with a
  resolver that answers returns 0 with host name \<open>example.com\<close>, path \<open>/a/b\<close> and port
  8443, but with \<open>is_ssl\<close> false: nothing derives the flag from the schema.
\<close>

theorem init_https_is_ssl_false:
  "map_option fst (returned (requests_init cfg_tls (parse_as purl_8443) no_bytes resolver_one 0
       url_8443)) = Some 0
 \<and> map_option (c_str \<circ> schema \<circ> url_fields)
       (ctx_after (requests_init cfg_tls (parse_as purl_8443) no_bytes resolver_one 0 url_8443))
     = Some ''https''
 \<and> map_option (c_str \<circ> hostname \<circ> url_fields)
       (ctx_after (requests_init cfg_tls (parse_as purl_8443) no_bytes resolver_one 0 url_8443))
     = Some ''example.com''
 \<and> map_option (c_str \<circ> uri \<circ> url_fields)
       (ctx_after (requests_init cfg_tls (parse_as purl_8443) no_bytes resolver_one 0 url_8443))
     = Some ''/a/b''
 \<and> map_option (port \<circ> url_fields)
       (ctx_after (requests_init cfg_tls (parse_as purl_8443) no_bytes resolver_one 0 url_8443))
     = Some 8443
 \<and> map_option (is_ssl \<circ> url_fields)
       (ctx_after (requests_init cfg_tls (parse_as purl_8443) no_bytes resolver_one 0 url_8443))
     = Some False"
  by code_simp

section \<open>Readiness gate\<close>

lemma run_cbs_Nil: "run_cbs [] st = st"
  by (simp add: run_cbs_def)

lemma run_cbs_Cons: "run_cbs (ev # evs) st = run_cbs evs (requests_dns_cb ev st)"
  by (simp add: run_cbs_def)

lemma answers_Nil: "answers [] = []"
  by (simp add: answers_def)

lemma answers_None: "answers ((s, None) # evs) = answers evs"
  by (simp add: answers_def)

lemma answers_Some: "answers ((s, Some i) # evs) = i # answers evs"
  by (simp add: answers_def)

lemma delivered_all: "DNS_EAI_ALLDONE \<notin> fst ` set evs \<Longrightarrow> delivered evs = evs"
  by (induction evs) auto

text \<open>Only the completion signal gives the semaphore.\<close>

lemma dns_cb_keeps_sem:
  "s \<noteq> DNS_EAI_ALLDONE \<Longrightarrow> fst (requests_dns_cb (s, info) (w, ctx)) = w"
  by (cases s) (auto simp: Let_def split: option.splits)

lemma dns_cb_gives_sem: "fst (requests_dns_cb (DNS_EAI_ALLDONE, info) (0, ctx)) = 1"
  by (auto simp: Let_def k_sem_give_def split: option.splits)

text \<open>What one callback does to the context.\<close>

lemma dns_cb_ctx:
  "snd (requests_dns_cb (s, None) (w, ctx)) = ctx"
  "is_ipv4 i \<Longrightarrow> snd (requests_dns_cb (s, Some i) (w, ctx)) = ctx\<lparr> sa := ai_addr i, err := 0 \<rparr>"
  "\<not> is_ipv4 i \<Longrightarrow> snd (requests_dns_cb (s, Some i) (w, ctx)) = ctx\<lparr> err := - EINVAL \<rparr>"
  by (simp_all add: Let_def is_ipv4_def)

text \<open>
  A pending signal ends the wait at once. Without one, the wait ends with the first
  completion signal among the callbacks, and with \<open>-EAGAIN\<close> when there is none.
\<close>

lemma take_dns_wait_signalled: "0 < w \<Longrightarrow> take_dns_wait w ctx evs = (0, w - 1, ctx)"
  by (cases evs) auto

lemma take_dns_wait_fresh:
  "take_dns_wait 0 ctx evs =
     (if DNS_EAI_ALLDONE \<in> fst ` set evs
      then (0, 0, snd (run_cbs (delivered evs) (0, ctx)))
      else (- EAGAIN, 0, snd (run_cbs evs (0, ctx))))"
proof (induction evs arbitrary: ctx)
  case Nil
  show ?case
    by (simp add: run_cbs_Nil)
next
  case (Cons ev evs)
  obtain s info where ev: "ev = (s, info)"
    by (cases ev)
  obtain w' ctx' where cb: "requests_dns_cb (s, info) (0, ctx) = (w', ctx')"
    by (cases "requests_dns_cb (s, info) (0, ctx)")
  show ?case
  proof (cases "s = DNS_EAI_ALLDONE")
    case True
    then have "w' = 1"
      using dns_cb_gives_sem [of info ctx] cb by simp
    then show ?thesis
      using True cb ev by (simp add: take_dns_wait_signalled run_cbs_Cons run_cbs_Nil)
  next
    case False
    then have "w' = 0"
      using dns_cb_keeps_sem [of s info 0 ctx] cb by simp
    then show ?thesis
      using False cb ev Cons.IH [of ctx'] by (auto simp: run_cbs_Cons)
  qed
qed

text \<open>
  After a run of callbacks the context holds the address of the last IPv4 answer, and its
  error code is decided by the last answer of any family.
\<close>

lemma run_cbs_ctx:
  "sa (snd (run_cbs evs (w, ctx))) =
      (case filter is_ipv4 (answers evs) of
         [] \<Rightarrow> sa ctx
       | x # xs \<Rightarrow> ai_addr (last (x # xs)))
 \<and> err (snd (run_cbs evs (w, ctx))) =
      (case answers evs of
         [] \<Rightarrow> err ctx
       | x # xs \<Rightarrow> if is_ipv4 (last (x # xs)) then 0 else - EINVAL)"
proof (induction evs arbitrary: w ctx)
  case Nil
  show ?case
    by (simp add: run_cbs_Nil answers_Nil)
next
  case (Cons ev evs)
  obtain s info where ev: "ev = (s, info)"
    by (cases ev)
  obtain w' ctx' where cb: "requests_dns_cb (s, info) (w, ctx) = (w', ctx')"
    by (cases "requests_dns_cb (s, info) (w, ctx)")
  show ?case
  proof (cases info)
    case None
    then have "ctx' = ctx"
      using cb dns_cb_ctx(1) [of s w ctx] by simp
    then show ?thesis
      using Cons.IH [of w' ctx] cb ev None by (simp add: run_cbs_Cons answers_None)
  next
    case (Some i)
    show ?thesis
    proof (cases "is_ipv4 i")
      case True
      then have "ctx' = ctx\<lparr> sa := ai_addr i, err := 0 \<rparr>"
        using cb Some dns_cb_ctx(2) [of i s w ctx] by simp
      then show ?thesis
        using Cons.IH [of w' ctx'] cb ev Some True
        by (auto simp: run_cbs_Cons answers_Some split: list.splits)
    next
      case False
      then have "ctx' = ctx\<lparr> err := - EINVAL \<rparr>"
        using cb Some dns_cb_ctx(3) [of i s w ctx] by simp
      then show ?thesis
        using Cons.IH [of w' ctx'] cb ev Some False
        by (auto simp: run_cbs_Cons answers_Some split: list.splits)
    qed
  qed
qed

text \<open>
  Counterexample to C7: the resolver answers \<open>example.com\<close> with two IPv4 addresses and
  then signals completion. \<open>requests_init\<close> returns 0 and the context holds the second
  address, not the first.
\<close>

theorem dns_gate_first_ipv4_counterexample:
  "map_option fst (returned (requests_init cfg_plain (parse_as purl_https) no_bytes resolver_two 0
       url_https)) = Some 0
 \<and> map_option sa
       (ctx_after (requests_init cfg_plain (parse_as purl_https) no_bytes resolver_two 0 url_https))
     = Some (ai_addr answer2)
 \<and> map_option sa
       (ctx_after (requests_init cfg_plain (parse_as purl_https) no_bytes resolver_two 0 url_https))
     \<noteq> Some (ai_addr answer1)"
  by code_simp

text \<open>
  Claim C7, amended. For a lookup that starts with no completion signal pending, on a
  context with a host name, a link that is up and a query that was accepted: the address
  stored is that of the last IPv4 answer among the callbacks delivered up to the completion
  signal (each IPv4 answer overwrites the one before it); an answer of another family is not
  stored and sets the error code to \<open>-EINVAL\<close>, which a later IPv4 answer resets; and the
  lookup returns the error code left by the last answer when a completion signal was
  delivered, and \<open>-EAGAIN\<close>, the timeout of the wait, when none was.
\<close>

theorem dns_gate:
  assumes "strlen (hostname (url_fields ctx)) \<noteq> 0"
    and "0 \<le> take_ipv4_wait rs"
    and "0 \<le> dns_get_addr_info rs (c_str (hostname (url_fields ctx)))"
    and "requests_dns_lookup rs 0 ctx = (ret, w', ctx')"
  shows "sa ctx' = (case filter is_ipv4 (answers (delivered (dns_events rs))) of
                      [] \<Rightarrow> sa ctx
                    | x # xs \<Rightarrow> ai_addr (last (x # xs)))
       \<and> ret = (if DNS_EAI_ALLDONE \<in> fst ` set (dns_events rs)
                then (case answers (delivered (dns_events rs)) of
                        [] \<Rightarrow> err ctx
                      | x # xs \<Rightarrow> if is_ipv4 (last (x # xs)) then 0 else - EINVAL)
                else - EAGAIN)
       \<and> (\<forall>s i w c. \<not> is_ipv4 i \<longrightarrow>
            sa (snd (requests_dns_cb (s, Some i) (w, c))) = sa c
          \<and> err (snd (requests_dns_cb (s, Some i) (w, c))) = - EINVAL)"
proof -
  have lk: "requests_dns_lookup rs 0 ctx =
     (case take_dns_wait 0 ctx (dns_events rs) of
        (ret, dns_wait', ctx') \<Rightarrow>
          if ret < 0 then (ret, dns_wait', ctx') else (err ctx', dns_wait', ctx'))"
    using assms(1-3) by (simp add: requests_dns_lookup_def Let_def)
  have cb: "\<forall>s i w c. \<not> is_ipv4 i \<longrightarrow>
            sa (snd (requests_dns_cb (s, Some i) (w, c))) = sa c
          \<and> err (snd (requests_dns_cb (s, Some i) (w, c))) = - EINVAL"
    by (simp add: dns_cb_ctx(3) del: requests_dns_cb.simps)
  show ?thesis
  proof (cases "DNS_EAI_ALLDONE \<in> fst ` set (dns_events rs)")
    case True
    then have "ctx' = snd (run_cbs (delivered (dns_events rs)) (0, ctx))" "ret = err ctx'"
      using assms(4) unfolding lk take_dns_wait_fresh by auto
    then show ?thesis
      using True cb run_cbs_ctx [of "delivered (dns_events rs)" 0 ctx] by simp
  next
    case False
    then have "ctx' = snd (run_cbs (delivered (dns_events rs)) (0, ctx))" "ret = - EAGAIN"
      using assms(4) delivered_all [OF False] unfolding lk take_dns_wait_fresh
      by (auto simp: EAGAIN_def)
    then show ?thesis
      using False cb run_cbs_ctx [of "delivered (dns_events rs)" 0 ctx] by simp
  qed
qed

text \<open>
  Witness for C7: the lookup of \<open>example.com\<close> with the resolver that gives two IPv4
  answers returns 0 and stores the second address.
\<close>

theorem dns_gate_witness:
  "strlen (hostname (url_fields ctx_example_com)) \<noteq> 0
 \<and> 0 \<le> take_ipv4_wait resolver_two
 \<and> 0 \<le> dns_get_addr_info resolver_two (c_str (hostname (url_fields ctx_example_com)))
 \<and> fst (requests_dns_lookup resolver_two 0 ctx_example_com) = 0
 \<and> sa (snd (snd (requests_dns_lookup resolver_two 0 ctx_example_com))) = ai_addr answer2"
proof -
  have h1: "strlen (hostname (url_fields ctx_example_com)) \<noteq> 0"
    by code_simp
  have h2: "0 \<le> take_ipv4_wait resolver_two"
    by (simp add: resolver_two_def)
  have h3: "0 \<le> dns_get_addr_info resolver_two (c_str (hostname (url_fields ctx_example_com)))"
    by (simp add: resolver_two_def)
  obtain ret w c where e: "requests_dns_lookup resolver_two 0 ctx_example_com = (ret, w, c)"
    by (cases "requests_dns_lookup resolver_two 0 ctx_example_com")
  have d: "delivered (dns_events resolver_two)
             = [(DNS_EAI_INPROGRESS, Some answer1), (DNS_EAI_INPROGRESS, Some answer2),
                (DNS_EAI_ALLDONE, None)]"
    by (simp add: resolver_two_def)
  have a: "answers (delivered (dns_events resolver_two)) = [answer1, answer2]"
    unfolding d by (simp add: answers_Some answers_None answers_Nil)
  have f: "is_ipv4 answer1" "is_ipv4 answer2"
    by (simp_all add: is_ipv4_def answer1_def answer2_def)
  have g: "DNS_EAI_ALLDONE \<in> fst ` set (dns_events resolver_two)"
    by (simp add: resolver_two_def)
  from dns_gate [OF h1 h2 h3 e] have "sa c = ai_addr answer2" "ret = 0"
    by (simp_all add: a f g)
  then show ?thesis
    using h1 h2 h3 e by simp
qed

end
